theory Spec2Isabelle
  imports Main
begin

section \<open>The Company resource of the HubSpot client (company.go)\<close>

subsection \<open>Scalar wrappers and the Company structure\<close>

text \<open>
  Modelled from the spec: the declaration of the string wrapper \<^verbatim>\<open>HsStr\<close> is not part
  of company.go. The spec describes it as a nullable string primitive that is built from
  a literal value and has a formatted string accessor. A field of Go type
  \<^verbatim>\<open>*HsStr\<close> is an \<open>HsStr option\<close>, \<open>None\<close> being the nil pointer (the absent
  property).
\<close>

type_synonym HsStr = string

definition NewString :: "string \<Rightarrow> HsStr option" where
  "NewString s = Some s"

definition HsStr_String :: "HsStr \<Rightarrow> string" where
  "HsStr_String hs = hs"

text \<open>
  The fifteen fields of \<^verbatim>\<open>Company\<close>, in the order of the source. The timestamp
  wrapper \<^verbatim>\<open>HsTime\<close> is declared elsewhere and is the type parameter \<open>'t\<close>.
  \<^verbatim>\<open>Domain\<close> is written \<open>Domain_c\<close>, the plain name being a constant of HOL.
\<close>

record 't Company =
  ID :: "HsStr option"
  Name :: "HsStr option"
  Industry :: "HsStr option"
  Domain_c :: "HsStr option"
  Phone :: "HsStr option"
  City :: "HsStr option"
  State :: "HsStr option"
  HsCreateDate :: "'t option"
  HsLastModifiedDate :: "'t option"
  HsObjectID :: "HsStr option"
  HubspotOwnerAssignedDate :: "'t option"
  HubspotOwnerID :: "HsStr option"
  ProductNames :: "HsStr option"
  TrialStatus :: "HsStr option"
  TrialEndDate :: "HsStr option"

subsection \<open>The two functions of Go's strings package that company.go calls\<close>

text \<open>
  \<^verbatim>\<open>strings.Split(s, sep)\<close> for a separator of one byte: the pieces of \<open>s\<close> between
  the separators, one more than there are separators, so never an empty slice.
\<close>

fun Split :: "string \<Rightarrow> char \<Rightarrow> string list" where
  "Split [] sep = [[]]"
| "Split (c # cs) sep =
     (if c = sep then [] # Split cs sep
      else (c # hd (Split cs sep)) # tl (Split cs sep))"

text \<open>\<^verbatim>\<open>strings.Join(elems, sep)\<close>.\<close>

fun Join :: "string list \<Rightarrow> string \<Rightarrow> string" where
  "Join [] sep = []"
| "Join [a] sep = a"
| "Join (a # b # bs) sep = a @ sep @ Join (b # bs) sep"

subsection \<open>AddProductName\<close>

definition AddProductName :: "string \<Rightarrow> 't Company \<Rightarrow> 't Company" where
  "AddProductName name c =
     (let tmpProductNames =
            (case ProductNames c of
               None \<Rightarrow> []
             | Some p \<Rightarrow> if HsStr_String p \<noteq> [] then Split (HsStr_String p) (CHR '';'') else []);
          tmpProductNames = tmpProductNames @ [name]
      in c\<lparr>ProductNames := NewString (Join tmpProductNames '';'')\<rparr>)"

subsection \<open>RemoveProductName\<close>

text \<open>
  A Go slice of strings: the backing array from the slice's first element on (its length
  is the capacity) and the slice's length. The elements of the slice are
  \<open>take (len t) (arr t)\<close>.
\<close>

record slice =
  arr :: "string list"
  len :: nat

definition elems :: "slice \<Rightarrow> string list" where
  "elems t = take (len t) (arr t)"

datatype panic = NilPointerDereference | SliceBoundsOutOfRange

text \<open>
  The statement \<^verbatim>\<open>tmp = append(tmp[:i], tmp[i+1:]...)\<close>. The slice expression
  \<^verbatim>\<open>tmp[:i]\<close> panics unless \<open>i\<close> is at most the capacity, and \<^verbatim>\<open>tmp[i+1:]\<close>
  panics unless \<open>i + 1\<close> is at most the length. The result has one element less than
  \<open>tmp\<close>, so it fits the capacity and \<^verbatim>\<open>append\<close> copies the tail into the same
  backing array, whose cells from the new length on keep their old contents.
\<close>

definition remove_at :: "slice \<Rightarrow> nat \<Rightarrow> panic + slice" where
  "remove_at t i =
     (if length (arr t) < i then Inl SliceBoundsOutOfRange
      else if len t < i + 1 then Inl SliceBoundsOutOfRange
      else let tail = take (len t - (i + 1)) (drop (i + 1) (arr t))
           in Inr \<lparr>arr = take i (arr t) @ tail @ drop (i + length tail) (arr t),
                   len = i + length tail\<rparr>)"

text \<open>
  The loop \<^verbatim>\<open>for i, v := range tmp\<close>. Go evaluates the range expression once: the
  loop runs over the \<open>n\<close> indices of the slice as it was before the loop, and reads
  \<open>v\<close> from the shared backing array at each index.
\<close>

function remove_loop :: "string \<Rightarrow> nat \<Rightarrow> nat \<Rightarrow> slice \<Rightarrow> panic + slice" where
  "remove_loop name i n t =
     (if n \<le> i then Inr t
      else if arr t ! i = name then
        (case remove_at t i of
           Inl p \<Rightarrow> Inl p
         | Inr t' \<Rightarrow> remove_loop name (i + 1) n t')
      else remove_loop name (i + 1) n t)"
  by pat_completeness auto
termination
  by (relation "measure (\<lambda>(name, i, n, t). n - i)") auto

definition RemoveProductName :: "string \<Rightarrow> 't Company \<Rightarrow> panic + 't Company" where
  "RemoveProductName name c =
     (case ProductNames c of
        None \<Rightarrow> Inr c
      | Some p \<Rightarrow>
          (let tokens = Split (HsStr_String p) (CHR '';'')
           in case remove_loop name 0 (length tokens) \<lparr>arr = tokens, len = length tokens\<rparr> of
                Inl e \<Rightarrow> Inl e
              | Inr tmp \<Rightarrow>
                  if len tmp = 0 then Inr (c\<lparr>ProductNames := None\<rparr>)
                  else Inr (c\<lparr>ProductNames := NewString (Join (elems tmp) '';'')\<rparr>)))"

subsection \<open>Query options and envelopes\<close>

text \<open>
  Modelled from the spec: the declarations of \<^verbatim>\<open>RequestQueryOption\<close>,
  \<^verbatim>\<open>RequestPayload\<close>, \<^verbatim>\<open>ResponseResource\<close> and \<^verbatim>\<open>ResponseResourceMulti\<close>
  are not part of company.go, which reads and writes the fields below. Three of the
  structures have a field \<^verbatim>\<open>Properties\<close>; the suffix tells them apart. The query
  option's pagination and filter parameters are the field \<open>Others\<close>. A value of Go
  type \<^verbatim>\<open>interface{}\<close> holding the caller's structure is a \<open>'c option\<close>, with
  \<open>None\<close> for nil. What the transport decodes into an envelope besides the
  properties (ID, timestamps, associations) is \<open>Decoded\<close>, and the pagination cursor is
  \<open>Paging\<close>; both are \<open>None\<close> in an envelope built with no value for them.
\<close>

record 'q RequestQueryOption =
  Properties_opt :: "string list"
  Associations :: "string list"
  Others :: 'q

record 'c RequestPayload =
  Properties_req :: "'c option"

record ('c, 'm) ResponseResource =
  Properties_res :: "'c option"
  Decoded :: "'m option"

record ('c, 'm, 'p) ResponseResourceMulti =
  Results :: "('c, 'm) ResponseResource list"
  Paging :: "'p option"

text \<open>
  Modelled from the spec: \<^verbatim>\<open>setupProperties\<close> is a method of the query option and is
  not part of company.go. The spec: given a query option and a resource's default field
  list, it returns an option whose property list equals the caller's originally specified
  list if non-empty, otherwise the supplied default list.
\<close>

definition setupProperties :: "'q RequestQueryOption \<Rightarrow> string list \<Rightarrow> 'q RequestQueryOption" where
  "setupProperties opt defaultFields =
     (if length (Properties_opt opt) = 0 then opt\<lparr>Properties_opt := defaultFields\<rparr> else opt)"

subsection \<open>The transport collaborator\<close>

text \<open>
  Modelled from the spec: \<^verbatim>\<open>Client\<close> is declared elsewhere; the spec gives its four
  methods \<^verbatim>\<open>Get(path, responseTarget, queryParams)\<close>,
  \<^verbatim>\<open>Post(path, requestBody, responseTarget)\<close>,
  \<^verbatim>\<open>Patch(path, requestBody, responseTarget)\<close> and \<^verbatim>\<open>Delete(path)\<close>, each returning
  an error or nil. A call acts on the world outside the program (the state \<open>'w\<close>) and
  decodes the response into the target it is given, so a method maps the world to the
  error, the target after the call and the world after the call. The Go methods take
  \<^verbatim>\<open>interface{}\<close> arguments; company.go calls \<^verbatim>\<open>Get\<close> and \<^verbatim>\<open>Post\<close> at two types
  each, which are two fields here. The search option (a pointer, possibly nil) is \<open>'s\<close>
  and the error value is \<open>'e\<close>.
\<close>

record ('c, 'm, 'p, 'q, 's, 'e, 'w) Client =
  client_Get ::
    "string \<Rightarrow> ('c, 'm) ResponseResource \<Rightarrow> 'q RequestQueryOption \<Rightarrow> 'w
       \<Rightarrow> 'e option \<times> ('c, 'm) ResponseResource \<times> 'w"
  client_GetMulti ::
    "string \<Rightarrow> ('c, 'm, 'p) ResponseResourceMulti \<Rightarrow> 'q RequestQueryOption \<Rightarrow> 'w
       \<Rightarrow> 'e option \<times> ('c, 'm, 'p) ResponseResourceMulti \<times> 'w"
  client_Post ::
    "string \<Rightarrow> 'c RequestPayload \<Rightarrow> ('c, 'm) ResponseResource \<Rightarrow> 'w
       \<Rightarrow> 'e option \<times> ('c, 'm) ResponseResource \<times> 'w"
  client_PostSearch ::
    "string \<Rightarrow> 's \<Rightarrow> ('c, 'm, 'p) ResponseResourceMulti \<Rightarrow> 'w
       \<Rightarrow> 'e option \<times> ('c, 'm, 'p) ResponseResourceMulti \<times> 'w"
  client_Patch ::
    "string \<Rightarrow> 'c RequestPayload \<Rightarrow> ('c, 'm) ResponseResource \<Rightarrow> 'w
       \<Rightarrow> 'e option \<times> ('c, 'm) ResponseResource \<times> 'w"
  client_Delete :: "string \<Rightarrow> 'w \<Rightarrow> 'e option \<times> 'w"

subsection \<open>CompanyServiceOp\<close>

definition companyBasePath :: string where
  "companyBasePath = ''companies''"

record ('c, 'm, 'p, 'q, 's, 'e, 'w) CompanyServiceOp =
  companyPath :: string
  client :: "('c, 'm, 'p, 'q, 's, 'e, 'w) Client"

definition defaultCompanyFields :: "string list" where
  "defaultCompanyFields =
     [''id'',
      ''name'',
      ''industry'',
      ''domain'',
      ''phone'',
      ''city'',
      ''state'',
      ''hs_createdate'',
      ''hs_lastmodifieddate'',
      ''hs_object_id'',
      ''hubspot_owner_assigneddate'',
      ''hubspot_owner_id'',
      ''products'',
      ''trial_status'',
      ''trial_end_date'']"

text \<open>
  The operations return what the Go methods return (the envelope pointer, nil on failure,
  and the error, nil on success) and the world after the call. \<^verbatim>\<open>Get\<close> and
  \<^verbatim>\<open>GetAll\<close> read fields of the option pointer, which panics when the pointer is nil
  (\<open>None\<close>).
\<close>

definition Get ::
  "('c, 'm, 'p, 'q, 's, 'e, 'w) CompanyServiceOp \<Rightarrow> string \<Rightarrow> 'c option
     \<Rightarrow> 'q RequestQueryOption option \<Rightarrow> 'w
     \<Rightarrow> (panic + (('c, 'm) ResponseResource option \<times> 'e option)) \<times> 'w" where
  "Get s companyID company option w =
     (let resource = \<lparr>Properties_res = company, Decoded = None\<rparr>;
          path = companyPath s @ ''/'' @ companyID
      in case option of
           None \<Rightarrow> (Inl NilPointerDereference, w)
         | Some opt \<Rightarrow>
             (let (path, resource) =
                    (if length (Associations opt) \<noteq> 0
                     then (path @ ''/associations/'' @ Associations opt ! 0,
                           \<lparr>Properties_res = None, Decoded = None\<rparr>)
                     else (path, resource))
              in case client_Get (client s) path resource
                        (setupProperties opt defaultCompanyFields) w of
                   (Some err, resource', w') \<Rightarrow> (Inr (None, Some err), w')
                 | (None, resource', w') \<Rightarrow> (Inr (Some resource', None), w')))"

definition Create ::
  "('c, 'm, 'p, 'q, 's, 'e, 'w) CompanyServiceOp \<Rightarrow> 'c option \<Rightarrow> 'w
     \<Rightarrow> (('c, 'm) ResponseResource option \<times> 'e option) \<times> 'w" where
  "Create s company w =
     (let req = \<lparr>Properties_req = company\<rparr>;
          resource = \<lparr>Properties_res = company, Decoded = None\<rparr>
      in case client_Post (client s) (companyPath s) req resource w of
           (Some err, resource', w') \<Rightarrow> ((None, Some err), w')
         | (None, resource', w') \<Rightarrow> ((Some resource', None), w'))"

definition Update ::
  "('c, 'm, 'p, 'q, 's, 'e, 'w) CompanyServiceOp \<Rightarrow> string \<Rightarrow> 'c option \<Rightarrow> 'w
     \<Rightarrow> (('c, 'm) ResponseResource option \<times> 'e option) \<times> 'w" where
  "Update s companyID company w =
     (let req = \<lparr>Properties_req = company\<rparr>;
          resource = \<lparr>Properties_res = company, Decoded = None\<rparr>
      in case client_Patch (client s) (companyPath s @ ''/'' @ companyID) req resource w of
           (Some err, resource', w') \<Rightarrow> ((None, Some err), w')
         | (None, resource', w') \<Rightarrow> ((Some resource', None), w'))"

definition GetAll ::
  "('c, 'm, 'p, 'q, 's, 'e, 'w) CompanyServiceOp \<Rightarrow> 'c option
     \<Rightarrow> 'q RequestQueryOption option \<Rightarrow> 'w
     \<Rightarrow> (panic + (('c, 'm, 'p) ResponseResourceMulti option \<times> 'e option)) \<times> 'w" where
  "GetAll s company option w =
     (let resource = \<lparr>Results = [], Paging = None\<rparr>
      in case option of
           None \<Rightarrow> (Inl NilPointerDereference, w)
         | Some opt \<Rightarrow>
             (let opt = (if length (Properties_opt opt) = 0
                         then setupProperties opt defaultCompanyFields else opt)
              in case client_GetMulti (client s) (companyPath s) resource opt w of
                   (Some err, resource', w') \<Rightarrow> (Inr (None, Some err), w')
                 | (None, resource', w') \<Rightarrow> (Inr (Some resource', None), w')))"

definition Search ::
  "('c, 'm, 'p, 'q, 's, 'e, 'w) CompanyServiceOp \<Rightarrow> 'c option \<Rightarrow> 's \<Rightarrow> 'w
     \<Rightarrow> (('c, 'm, 'p) ResponseResourceMulti option \<times> 'e option) \<times> 'w" where
  "Search s company option w =
     (let resources = [];
          resources = resources @ [\<lparr>Properties_res = company, Decoded = None\<rparr>];
          resource = \<lparr>Results = resources, Paging = None\<rparr>
      in case client_PostSearch (client s) (companyPath s @ ''/search'') option resource w of
           (Some err, resource', w') \<Rightarrow> ((None, Some err), w')
         | (None, resource', w') \<Rightarrow> ((Some resource', None), w'))"

definition Delete ::
  "('c, 'm, 'p, 'q, 's, 'e, 'w) CompanyServiceOp \<Rightarrow> string \<Rightarrow> 'w \<Rightarrow> 'e option \<times> 'w" where
  "Delete s companyID w =
     (let path = companyPath s @ ''/'' @ companyID
      in case client_Delete (client s) path w of
           (Some err, w') \<Rightarrow> (Some err, w')
         | (None, w') \<Rightarrow> (None, w'))"

subsection \<open>A recording transport for the examples\<close>

text \<open>
  The requests a transport can receive from \<^verbatim>\<open>CompanyServiceOp\<close>, and a transport
  whose world is the log of the requests received so far: it answers every call with
  the same error value (\<open>None\<close> for success) and leaves the target as it is.
\<close>

datatype ('c, 'm, 'p, 'q, 's) request =
    GET string "('c, 'm) ResponseResource" "'q RequestQueryOption"
  | GET_multi string "('c, 'm, 'p) ResponseResourceMulti" "'q RequestQueryOption"
  | POST string "'c RequestPayload" "('c, 'm) ResponseResource"
  | POST_search string 's "('c, 'm, 'p) ResponseResourceMulti"
  | PATCH string "'c RequestPayload" "('c, 'm) ResponseResource"
  | DELETE string

definition recorder ::
  "'e option \<Rightarrow> ('c, 'm, 'p, 'q, 's, 'e, ('c, 'm, 'p, 'q, 's) request list) Client" where
  "recorder answer =
     \<lparr>client_Get = (\<lambda>path target query log. (answer, target, log @ [GET path target query])),
      client_GetMulti =
        (\<lambda>path target query log. (answer, target, log @ [GET_multi path target query])),
      client_Post = (\<lambda>path body target log. (answer, target, log @ [POST path body target])),
      client_PostSearch =
        (\<lambda>path body target log. (answer, target, log @ [POST_search path body target])),
      client_Patch = (\<lambda>path body target log. (answer, target, log @ [PATCH path body target])),
      client_Delete = (\<lambda>path log. (answer, log @ [DELETE path]))\<rparr>"

section \<open>Properties of the token helpers\<close>

subsection \<open>Split and Join\<close>

lemma Split_not_Nil: "Split s sep \<noteq> []"
  by (induction s) auto

lemma Join_Cons: "xs \<noteq> [] \<Longrightarrow> Join (a # xs) sep = a @ sep @ Join xs sep"
  by (cases xs) auto

lemma Join_snoc: "xs \<noteq> [] \<Longrightarrow> Join (xs @ [a]) sep = Join xs sep @ sep @ a"
  by (induction xs sep rule: Join.induct) auto

text \<open>Joining the pieces of a string with the separator gives the string back.\<close>

lemma Join_Split: "Join (Split s sep) [sep] = s"
proof (induction s)
  case Nil
  show ?case by simp
next
  case (Cons c cs)
  obtain t ts where sp: "Split cs sep = t # ts"
    using Split_not_Nil [of cs sep] by (cases "Split cs sep") auto
  show ?case
  proof (cases "c = sep")
    case True
    with Cons show ?thesis by (simp add: Join_Cons Split_not_Nil)
  next
    case False
    with Cons sp show ?thesis by (cases ts) auto
  qed
qed

lemma Split_no_sep: "sep \<notin> set s \<Longrightarrow> Split s sep = [s]"
  by (induction s) auto

lemma Split_append_sep: "sep \<notin> set a \<Longrightarrow> Split (a @ sep # s) sep = a # Split s sep"
  by (induction a) auto

text \<open>Splitting a joined sequence of separator-free tokens gives the tokens back.\<close>

lemma Split_Join:
  "xs \<noteq> [] \<Longrightarrow> \<forall>x \<in> set xs. sep \<notin> set x \<Longrightarrow> Split (Join xs [sep]) sep = xs"
proof (induction xs "[sep]" rule: Join.induct)
  case 1
  then show ?case by simp
next
  case (2 a)
  then show ?case by (simp add: Split_no_sep)
next
  case (3 a b bs)
  then show ?case by (simp add: Split_append_sep)
qed

lemma Split_tokens_no_sep: "x \<in> set (Split s sep) \<Longrightarrow> sep \<notin> set x"
proof (induction s arbitrary: x)
  case Nil
  then show ?case by simp
next
  case (Cons c cs)
  obtain t ts where sp: "Split cs sep = t # ts"
    using Split_not_Nil [of cs sep] by (cases "Split cs sep") auto
  have t: "sep \<notin> set t" and ts: "\<forall>y \<in> set ts. sep \<notin> set y"
    using Cons.IH sp by auto
  show ?case using Cons.prems sp t ts by (auto split: if_splits)
qed

subsection \<open>The removal loop\<close>

text \<open>Indices whose cell differs from the name are passed over.\<close>

lemma remove_loop_skip:
  "i \<le> k \<Longrightarrow> k \<le> n \<Longrightarrow> \<forall>j. i \<le> j \<and> j < k \<longrightarrow> arr t ! j \<noteq> name
     \<Longrightarrow> remove_loop name i n t = remove_loop name k n t"
proof (induction "k - i" arbitrary: i)
  case 0
  then show ?case by simp
next
  case (Suc d)
  then have lt: "i < k" and nm: "arr t ! i \<noteq> name" by auto
  have "remove_loop name i n t = remove_loop name (i + 1) n t"
    using lt Suc.prems(2) nm by (subst remove_loop.simps) simp
  also have "\<dots> = remove_loop name k n t"
    using Suc.hyps(1) [of "i + 1"] Suc.hyps(2) Suc.prems lt by auto
  finally show ?case .
qed

lemma remove_loop_done: "remove_loop name n n t = Inr t"
  by (subst remove_loop.simps) simp

lemma remove_loop_no_match:
  "i \<le> n \<Longrightarrow> \<forall>j. i \<le> j \<and> j < n \<longrightarrow> arr t ! j \<noteq> name \<Longrightarrow> remove_loop name i n t = Inr t"
  using remove_loop_skip [of i n n t name] by (simp add: remove_loop_done)

text \<open>
  Removing the cell after \<open>xs\<close> from a full slice shifts \<open>ys\<close> down by one cell; the
  last cell of the backing array keeps its old content.
\<close>

lemma remove_at_split:
  "remove_at \<lparr>arr = xs @ x # ys, len = length (xs @ x # ys)\<rparr> (length xs)
     = Inr \<lparr>arr = xs @ ys @ [last (x # ys)], len = length (xs @ ys)\<rparr>"
proof -
  have "drop (length xs + length ys) (xs @ x # ys) = [last (x # ys)]"
    by (induction ys arbitrary: x) auto
  then show ?thesis by (simp add: remove_at_def Let_def)
qed

lemma remove_loop_once:
  assumes xs: "name \<notin> set xs" and ys: "name \<notin> set ys"
  shows "remove_loop name 0 (length (xs @ name # ys))
           \<lparr>arr = xs @ name # ys, len = length (xs @ name # ys)\<rparr>
           = Inr \<lparr>arr = xs @ ys @ [last (name # ys)], len = length (xs @ ys)\<rparr>"
proof -
  let ?n = "length (xs @ name # ys)"
  let ?t = "\<lparr>arr = xs @ name # ys, len = ?n\<rparr>"
  let ?t' = "\<lparr>arr = xs @ ys @ [last (name # ys)], len = length (xs @ ys)\<rparr>"
  have "remove_loop name 0 ?n ?t = remove_loop name (length xs) ?n ?t"
    using xs by (intro remove_loop_skip) (auto simp: nth_append)
  also have "\<dots> = remove_loop name (length xs + 1) ?n ?t'"
    using remove_at_split [of xs name ys] by (subst remove_loop.simps) simp
  also have "\<dots> = Inr ?t'"
  proof (rule remove_loop_no_match)
    show "length xs + 1 \<le> ?n" by simp
    show "\<forall>j. length xs + 1 \<le> j \<and> j < ?n \<longrightarrow> arr ?t' ! j \<noteq> name"
    proof (intro allI impI)
      fix j assume j: "length xs + 1 \<le> j \<and> j < ?n"
      then have ne: "ys \<noteq> []" by auto
      have "arr ?t' ! j = (ys @ [last ys]) ! (j - length xs)"
        using j ne by (simp add: nth_append)
      moreover have "(ys @ [last ys]) ! (j - length xs) \<in> set (ys @ [last ys])"
        using j by (intro nth_mem) auto
      moreover have "set (ys @ [last ys]) = set ys" using ne by auto
      ultimately show "arr ?t' ! j \<noteq> name" using ys by metis
    qed
  qed
  finally show ?thesis .
qed

lemma remove1_split: "name \<notin> set xs \<Longrightarrow> remove1 name (xs @ name # ys) = xs @ ys"
  by (induction xs) auto

text \<open>
  When the name occurs at most once among the tokens, the loop ends without a panic and
  the slice holds the tokens without the first occurrence of the name.
\<close>

lemma remove_loop_at_most_once:
  assumes "count_list tokens name \<le> 1"
  shows "\<exists>t. remove_loop name 0 (length tokens) \<lparr>arr = tokens, len = length tokens\<rparr> = Inr t
           \<and> elems t = remove1 name tokens \<and> len t = length (remove1 name tokens)"
proof (cases "name \<in> set tokens")
  case False
  then have "remove_loop name 0 (length tokens) \<lparr>arr = tokens, len = length tokens\<rparr>
               = Inr \<lparr>arr = tokens, len = length tokens\<rparr>"
    by (intro remove_loop_no_match) auto
  then show ?thesis using False by (simp add: elems_def remove1_idem)
next
  case True
  then obtain xs ys where sp: "tokens = xs @ name # ys" and xs: "name \<notin> set xs"
    by (meson split_list_first)
  have ys: "name \<notin> set ys"
    using assms sp by (auto simp: count_list_0_iff [symmetric])
  show ?thesis
    unfolding sp using remove_loop_once [OF xs ys] xs
    by (simp add: elems_def remove1_split)
qed

section \<open>The product-name helpers of Company\<close>

lemma RemoveProductName_absent: "ProductNames c = None \<Longrightarrow> RemoveProductName name c = Inr c"
  by (simp add: RemoveProductName_def)

text \<open>
  With at most one token equal to the name, \<^verbatim>\<open>RemoveProductName\<close> removes that token,
  and the field becomes absent when no token is left.
\<close>

lemma RemoveProductName_at_most_once:
  assumes p: "ProductNames c = Some p"
    and once: "count_list (Split p (CHR '';'')) name \<le> 1"
  shows "RemoveProductName name c =
           Inr (c\<lparr>ProductNames :=
                   (if remove1 name (Split p (CHR '';'')) = [] then None
                    else Some (Join (remove1 name (Split p (CHR '';''))) '';''))\<rparr>)"
proof -
  obtain t where t: "remove_loop name 0 (length (Split p (CHR '';'')))
                       \<lparr>arr = Split p (CHR '';''), len = length (Split p (CHR '';''))\<rparr> = Inr t"
    and el: "elems t = remove1 name (Split p (CHR '';''))"
    and ln: "len t = length (remove1 name (Split p (CHR '';'')))"
    using remove_loop_at_most_once [OF once] by blast
  show ?thesis
    using p t el ln
    by (simp add: RemoveProductName_def HsStr_String_def NewString_def Let_def)
qed

text \<open>
  With two tokens equal to the name the loop goes on after the first removal: here it
  removes both.
\<close>

lemma RemoveProductName_removes_two:
  "RemoveProductName ''x'' (c\<lparr>ProductNames := NewString ''x;a;x;b''\<rparr>)
     = Inr (c\<lparr>ProductNames := NewString ''a;b''\<rparr>)"
  by (simp add: RemoveProductName_def NewString_def HsStr_String_def remove_at_def elems_def)

text \<open>
  C1. \<^verbatim>\<open>RemoveProductName\<close> is to remove the first token equal to the name and no
  other, so that removing \<open>x\<close> from \<open>x;x\<close> leaves \<open>x\<close>. On that input the loop
  goes on after the removal, finds the name again in the cell the copy left behind and
  slices past the shortened length: the call panics instead of returning. The field gets
  that value from two calls of \<^verbatim>\<open>AddProductName\<close> on an absent field.
\<close>

theorem RemoveProductName_repeated_name_panics:
  "RemoveProductName ''x'' (c\<lparr>ProductNames := NewString ''x;x''\<rparr>) = Inl SliceBoundsOutOfRange
   \<and> RemoveProductName ''x''
         (AddProductName ''x'' (AddProductName ''x'' (c\<lparr>ProductNames := None\<rparr>)))
       = Inl SliceBoundsOutOfRange"
  by (simp add: RemoveProductName_def AddProductName_def NewString_def HsStr_String_def
        remove_at_def)

text \<open>
  C3. \<^verbatim>\<open>AddProductName\<close> starts from no tokens when the field is absent or holds the
  empty string, and from the pieces of the field's value otherwise; it appends the name,
  whether or not it is already a token, joins the tokens with semicolons and stores the
  result, leaving the other fields alone. The stored value is the name alone, or the old
  value, a semicolon and the name; the field is present afterwards; a name without a
  semicolon is one more token at the end. Adding \<open>x\<close> to an absent field gives \<open>x\<close>,
  and adding it again gives \<open>x;x\<close>.
\<close>

theorem AddProductName_appends_name:
  "AddProductName name c =
     c\<lparr>ProductNames :=
         Some (Join ((case ProductNames c of
                        None \<Rightarrow> []
                      | Some p \<Rightarrow> if p = [] then [] else Split p (CHR '';'')) @ [name]) '';'')\<rparr>
   \<and> ProductNames (AddProductName name c) =
       Some (case ProductNames c of
               None \<Rightarrow> name
             | Some p \<Rightarrow> if p = [] then name else p @ '';'' @ name)
   \<and> ProductNames (AddProductName name c) \<noteq> None
   \<and> (CHR '';'' \<notin> set name \<longrightarrow>
        Split (the (ProductNames (AddProductName name c))) (CHR '';'') =
          (case ProductNames c of
             None \<Rightarrow> []
           | Some p \<Rightarrow> if p = [] then [] else Split p (CHR '';'')) @ [name])
   \<and> ProductNames (AddProductName ''x'' (c\<lparr>ProductNames := None\<rparr>)) = Some ''x''
   \<and> ProductNames (AddProductName ''x'' (AddProductName ''x'' (c\<lparr>ProductNames := None\<rparr>)))
       = Some ''x;x''"
proof (intro conjI)
  show "AddProductName name c =
     c\<lparr>ProductNames :=
         Some (Join ((case ProductNames c of
                        None \<Rightarrow> []
                      | Some p \<Rightarrow> if p = [] then [] else Split p (CHR '';'')) @ [name]) '';'')\<rparr>"
    by (simp add: AddProductName_def NewString_def HsStr_String_def split: option.splits)
  have joined: "Join (Split p (CHR '';'') @ [name]) '';'' = p @ '';'' @ name" for p
    using Join_snoc [OF Split_not_Nil, of p "CHR '';''" name "'';''"]
    by (simp add: Join_Split)
  show "ProductNames (AddProductName name c) =
       Some (case ProductNames c of
               None \<Rightarrow> name
             | Some p \<Rightarrow> if p = [] then name else p @ '';'' @ name)"
    using joined
    by (simp add: AddProductName_def NewString_def HsStr_String_def split: option.splits)
  show "ProductNames (AddProductName name c) \<noteq> None"
    by (simp add: AddProductName_def NewString_def)
  show "CHR '';'' \<notin> set name \<longrightarrow>
        Split (the (ProductNames (AddProductName name c))) (CHR '';'') =
          (case ProductNames c of
             None \<Rightarrow> []
           | Some p \<Rightarrow> if p = [] then [] else Split p (CHR '';'')) @ [name]"
  proof
    assume nm: "CHR '';'' \<notin> set name"
    have "Split (Join (ts @ [name]) '';'') (CHR '';'') = ts @ [name]"
      if "\<forall>x \<in> set ts. CHR '';'' \<notin> set x" for ts
      using that nm Split_Join [of "ts @ [name]" "CHR '';''"] by simp
    then show "Split (the (ProductNames (AddProductName name c))) (CHR '';'') =
          (case ProductNames c of
             None \<Rightarrow> []
           | Some p \<Rightarrow> if p = [] then [] else Split p (CHR '';'')) @ [name]"
      using Split_tokens_no_sep [of _ _ "CHR '';''"] nm
      by (simp add: AddProductName_def NewString_def HsStr_String_def Split_no_sep
            split: option.splits)
  qed
  show "ProductNames (AddProductName ''x'' (c\<lparr>ProductNames := None\<rparr>)) = Some ''x''"
    by (simp add: AddProductName_def NewString_def)
  show "ProductNames (AddProductName ''x'' (AddProductName ''x'' (c\<lparr>ProductNames := None\<rparr>)))
       = Some ''x;x''"
    by (simp add: AddProductName_def NewString_def HsStr_String_def)
qed

theorem AddProductName_appends_name_witness:
  "CHR '';'' \<notin> set ''b''
   \<and> Split (the (ProductNames (AddProductName ''b''
        (\<lparr>ID = None, Name = None, Industry = None, Domain_c = None, Phone = None,
          City = None, State = None, HsCreateDate = None, HsLastModifiedDate = None,
          HsObjectID = None, HubspotOwnerAssignedDate = None, HubspotOwnerID = None,
          ProductNames = Some ''a;b'', TrialStatus = None, TrialEndDate = None\<rparr>
         :: unit Company)))) (CHR '';'') = [''a'', ''b'', ''b'']"
  using AddProductName_appends_name [of "''b''"
        "\<lparr>ID = None, Name = None, Industry = None, Domain_c = None, Phone = None,
          City = None, State = None, HsCreateDate = None, HsLastModifiedDate = None,
          HsObjectID = None, HubspotOwnerAssignedDate = None, HubspotOwnerID = None,
          ProductNames = Some ''a;b'', TrialStatus = None, TrialEndDate = None\<rparr>
         :: unit Company"]
  by simp

section \<open>Default fields\<close>

text \<open>
  C2. For a query option with an empty property list, \<^verbatim>\<open>setupProperties\<close> gives an
  option whose property list is the default list it was given, in the same order; for an
  option with a non-empty property list the list stays as it is, with nothing of the
  defaults added.
\<close>

theorem setupProperties_default_substitution:
  "(Properties_opt opt = [] \<longrightarrow>
      Properties_opt (setupProperties opt defaultFields) = defaultFields)
   \<and> (Properties_opt opt \<noteq> [] \<longrightarrow>
      Properties_opt (setupProperties opt defaultFields) = Properties_opt opt)"
  by (simp add: setupProperties_def)

theorem setupProperties_default_substitution_witness:
  "Properties_opt \<lparr>Properties_opt = [], Associations = [], Others = ()\<rparr> = []
   \<and> Properties_opt (setupProperties \<lparr>Properties_opt = [], Associations = [], Others = ()\<rparr>
        [''name'', ''id'']) = [''name'', ''id'']
   \<and> Properties_opt \<lparr>Properties_opt = [''custom_a''], Associations = [], Others = ()\<rparr> \<noteq> []
   \<and> Properties_opt
        (setupProperties \<lparr>Properties_opt = [''custom_a''], Associations = [], Others = ()\<rparr>
           [''name'', ''id'']) = [''custom_a'']"
  using setupProperties_default_substitution
          [of "\<lparr>Properties_opt = [], Associations = [], Others = ()\<rparr>" "[''name'', ''id'']"]
        setupProperties_default_substitution
          [of "\<lparr>Properties_opt = [''custom_a''], Associations = [], Others = ()\<rparr>"
              "[''name'', ''id'']"]
  by simp

text \<open>
  C8. The default field list of Company is the fifteen names \<open>id\<close>, \<open>name\<close>,
  \<open>industry\<close>, \<open>domain\<close>, \<open>phone\<close>, \<open>city\<close>, \<open>state\<close>, \<open>hs_createdate\<close>,
  \<open>hs_lastmodifieddate\<close>, \<open>hs_object_id\<close>, \<open>hubspot_owner_assigneddate\<close>,
  \<open>hubspot_owner_id\<close>, \<open>products\<close>, \<open>trial_status\<close>, \<open>trial_end_date\<close>, in
  that order, and it is the property list of the query that \<^verbatim>\<open>GetAll\<close> and
  \<^verbatim>\<open>Get\<close> pass on when the caller's property list is empty.
\<close>

theorem defaultCompanyFields_fifteen_names:
  "defaultCompanyFields =
     [''id'', ''name'', ''industry'', ''domain'', ''phone'', ''city'', ''state'',
      ''hs_createdate'', ''hs_lastmodifieddate'', ''hs_object_id'',
      ''hubspot_owner_assigneddate'', ''hubspot_owner_id'',
      ''products'', ''trial_status'', ''trial_end_date'']
   \<and> length defaultCompanyFields = 15
   \<and> (Properties_opt opt = [] \<longrightarrow>
        Properties_opt (setupProperties opt defaultCompanyFields) =
          [''id'', ''name'', ''industry'', ''domain'', ''phone'', ''city'', ''state'',
           ''hs_createdate'', ''hs_lastmodifieddate'', ''hs_object_id'',
           ''hubspot_owner_assigneddate'', ''hubspot_owner_id'',
           ''products'', ''trial_status'', ''trial_end_date''])"
  by (simp add: defaultCompanyFields_def setupProperties_def)

theorem defaultCompanyFields_fifteen_names_witness:
  "Properties_opt \<lparr>Properties_opt = [], Associations = [''contacts''], Others = ()\<rparr> = []
   \<and> Properties_opt (setupProperties
        \<lparr>Properties_opt = [], Associations = [''contacts''], Others = ()\<rparr> defaultCompanyFields) =
          [''id'', ''name'', ''industry'', ''domain'', ''phone'', ''city'', ''state'',
           ''hs_createdate'', ''hs_lastmodifieddate'', ''hs_object_id'',
           ''hubspot_owner_assigneddate'', ''hubspot_owner_id'',
           ''products'', ''trial_status'', ''trial_end_date'']"
  using defaultCompanyFields_fifteen_names
          [of "\<lparr>Properties_opt = [], Associations = [''contacts''], Others = ()\<rparr>"]
  by simp

section \<open>The operations of CompanyServiceOp\<close>

text \<open>
  C4. With the service's path being the base path \<open>companies\<close>: \<^verbatim>\<open>Get\<close> with an
  empty association list makes one transport call, a GET of \<open>companies/{id}\<close> whose
  target envelope holds the caller's structure as its properties; with a non-empty
  association list it makes one GET of \<open>companies/{id}/associations/{a}\<close>, \<open>a\<close>
  being the first association type of the list and the rest of the list playing no part
  in the path, with a target envelope that holds no properties. In both cases the query
  is the option after the default-field substitution, and \<^verbatim>\<open>Get\<close> returns what the
  call leaves: nil and the error, or the envelope and nil.
\<close>

theorem Get_request_path:
  assumes "companyPath s = companyBasePath"
  shows "(Associations opt = [] \<longrightarrow>
            Get s companyID company (Some opt) w =
              (case client_Get (client s) (''companies/'' @ companyID)
                      \<lparr>Properties_res = company, Decoded = None\<rparr>
                      (setupProperties opt defaultCompanyFields) w of
                 (err, resource, w') \<Rightarrow>
                   (Inr (case err of Some e \<Rightarrow> (None, Some e) | None \<Rightarrow> (Some resource, None)),
                    w')))
       \<and> (Associations opt = a # others \<longrightarrow>
            Get s companyID company (Some opt) w =
              (case client_Get (client s) (''companies/'' @ companyID @ ''/associations/'' @ a)
                      \<lparr>Properties_res = None, Decoded = None\<rparr>
                      (setupProperties opt defaultCompanyFields) w of
                 (err, resource, w') \<Rightarrow>
                   (Inr (case err of Some e \<Rightarrow> (None, Some e) | None \<Rightarrow> (Some resource, None)),
                    w')))"
  using assms
  by (simp add: Get_def companyBasePath_def split: prod.splits option.splits)

theorem Get_request_path_witness:
  "companyPath \<lparr>companyPath = companyBasePath, client = recorder (None :: string option)\<rparr>
     = companyBasePath
   \<and> Associations \<lparr>Properties_opt = [''name''], Associations = [], Others = ()\<rparr> = []
   \<and> Get \<lparr>companyPath = companyBasePath, client = recorder (None :: string option)\<rparr>
        ''42'' (Some ''Acme'') (Some \<lparr>Properties_opt = [''name''], Associations = [], Others = ()\<rparr>)
        ([] :: (string, unit, unit, unit, unit) request list)
       = (Inr (Some \<lparr>Properties_res = Some ''Acme'', Decoded = None\<rparr>, None),
          [GET ''companies/42'' \<lparr>Properties_res = Some ''Acme'', Decoded = None\<rparr>
             \<lparr>Properties_opt = [''name''], Associations = [], Others = ()\<rparr>])
   \<and> Associations \<lparr>Properties_opt = [''name''], Associations = [''contacts'', ''deals''],
                    Others = ()\<rparr> = ''contacts'' # [''deals'']
   \<and> Get \<lparr>companyPath = companyBasePath, client = recorder (None :: string option)\<rparr>
        ''42'' (Some ''Acme'')
        (Some \<lparr>Properties_opt = [''name''], Associations = [''contacts'', ''deals''], Others = ()\<rparr>)
        ([] :: (string, unit, unit, unit, unit) request list)
       = (Inr (Some \<lparr>Properties_res = None, Decoded = None\<rparr>, None),
          [GET ''companies/42/associations/contacts'' \<lparr>Properties_res = None, Decoded = None\<rparr>
             \<lparr>Properties_opt = [''name''], Associations = [''contacts'', ''deals''],
               Others = ()\<rparr>])"
  using Get_request_path
          [where s = "\<lparr>companyPath = companyBasePath, client = recorder (None :: string option)\<rparr>"
             and opt = "\<lparr>Properties_opt = [''name''], Associations = [], Others = ()\<rparr>"
             and companyID = "''42''" and company = "Some ''Acme''"
             and w = "[] :: (string, unit, unit, unit, unit) request list"]
        Get_request_path
          [where s = "\<lparr>companyPath = companyBasePath, client = recorder (None :: string option)\<rparr>"
             and opt = "\<lparr>Properties_opt = [''name''], Associations = [''contacts'', ''deals''],
                         Others = ()\<rparr>"
             and a = "''contacts''" and others = "[''deals'']"
             and companyID = "''42''" and company = "Some ''Acme''"
             and w = "[] :: (string, unit, unit, unit, unit) request list"]
  by (simp add: recorder_def setupProperties_def)

text \<open>
  C5. With the service's path being the base path \<open>companies\<close>, \<^verbatim>\<open>Search\<close> makes
  one transport call, a POST to \<open>companies/search\<close> whose body is the search option
  as the caller gave it (no default fields are put in) and whose target is a
  multi-result envelope, and returns what the call leaves: nil and the error, or the
  multi-result envelope and nil.
\<close>

theorem Search_posts_option_verbatim:
  assumes "companyPath s = companyBasePath"
  shows "Search s company option w =
           (case client_PostSearch (client s) ''companies/search'' option
                   \<lparr>Results = [\<lparr>Properties_res = company, Decoded = None\<rparr>], Paging = None\<rparr> w of
              (err, resource, w') \<Rightarrow>
                ((case err of Some e \<Rightarrow> (None, Some e) | None \<Rightarrow> (Some resource, None)), w'))"
  using assms
  by (simp add: Search_def companyBasePath_def split: prod.splits option.splits)

theorem Search_posts_option_verbatim_witness:
  "companyPath \<lparr>companyPath = companyBasePath, client = recorder (None :: string option)\<rparr>
     = companyBasePath
   \<and> Search \<lparr>companyPath = companyBasePath, client = recorder (None :: string option)\<rparr>
        (Some ''Acme'') [''filter'', ''sort'']
        ([] :: (string, unit, unit, unit, string list) request list)
       = ((Some \<lparr>Results = [\<lparr>Properties_res = Some ''Acme'', Decoded = None\<rparr>], Paging = None\<rparr>,
           None),
          [POST_search ''companies/search'' [''filter'', ''sort'']
             \<lparr>Results = [\<lparr>Properties_res = Some ''Acme'', Decoded = None\<rparr>], Paging = None\<rparr>])"
  using Search_posts_option_verbatim
          [where s = "\<lparr>companyPath = companyBasePath, client = recorder (None :: string option)\<rparr>"
             and company = "Some ''Acme''" and option = "[''filter'', ''sort'']"
             and w = "[] :: (string, unit, unit, unit, string list) request list"]
  by (simp add: recorder_def)

text \<open>
  C6. With the service's path being the base path \<open>companies\<close>, \<^verbatim>\<open>Create\<close> makes
  one POST to \<open>companies\<close> and \<^verbatim>\<open>Update\<close> one PATCH to \<open>companies/{id}\<close>. In
  both, the caller's structure is, as it was given, the properties of the request
  payload, and the same structure is the properties of the response envelope handed to
  the transport call; on success the operation returns that envelope as the call filled
  it.
\<close>

theorem Create_Update_share_structure:
  assumes "companyPath s = companyBasePath"
  shows "Create s company w =
           (case client_Post (client s) ''companies'' \<lparr>Properties_req = company\<rparr>
                   \<lparr>Properties_res = company, Decoded = None\<rparr> w of
              (err, resource, w') \<Rightarrow>
                ((case err of Some e \<Rightarrow> (None, Some e) | None \<Rightarrow> (Some resource, None)), w'))
       \<and> Update s companyID company w =
           (case client_Patch (client s) (''companies/'' @ companyID) \<lparr>Properties_req = company\<rparr>
                   \<lparr>Properties_res = company, Decoded = None\<rparr> w of
              (err, resource, w') \<Rightarrow>
                ((case err of Some e \<Rightarrow> (None, Some e) | None \<Rightarrow> (Some resource, None)), w'))"
  using assms
  by (simp add: Create_def Update_def companyBasePath_def split: prod.splits option.splits)

theorem Create_Update_share_structure_witness:
  "companyPath \<lparr>companyPath = companyBasePath, client = recorder (None :: string option)\<rparr>
     = companyBasePath
   \<and> Create \<lparr>companyPath = companyBasePath, client = recorder (None :: string option)\<rparr>
        (Some ''Acme'') ([] :: (string, unit, unit, unit, unit) request list)
       = ((Some \<lparr>Properties_res = Some ''Acme'', Decoded = None\<rparr>, None),
          [POST ''companies'' \<lparr>Properties_req = Some ''Acme''\<rparr>
             \<lparr>Properties_res = Some ''Acme'', Decoded = None\<rparr>])
   \<and> Update \<lparr>companyPath = companyBasePath, client = recorder (None :: string option)\<rparr>
        ''42'' (Some ''Acme'') ([] :: (string, unit, unit, unit, unit) request list)
       = ((Some \<lparr>Properties_res = Some ''Acme'', Decoded = None\<rparr>, None),
          [PATCH ''companies/42'' \<lparr>Properties_req = Some ''Acme''\<rparr>
             \<lparr>Properties_res = Some ''Acme'', Decoded = None\<rparr>])"
  using Create_Update_share_structure
          [where s = "\<lparr>companyPath = companyBasePath, client = recorder (None :: string option)\<rparr>"
             and company = "Some ''Acme''" and companyID = "''42''"
             and w = "[] :: (string, unit, unit, unit, unit) request list"]
  by (simp add: recorder_def)

text \<open>
  C7. Each of the six operations makes its one transport call and hands the outcome on.
  When the call returns an error, the operation returns that same error value, with nil
  for the resource where it returns one, and the world is as that one call left it
  (nothing is called again); when the call returns no error, the operation returns the
  envelope the call was given, as the call left it, and no error. For \<^verbatim>\<open>Get\<close> and
  \<^verbatim>\<open>GetAll\<close> the call is made when the option pointer is not nil.
\<close>

theorem transport_outcome_returned_unmodified:
  "(\<forall>err r w'.
      client_Get (client s)
        (if Associations opt = [] then companyPath s @ ''/'' @ companyID
         else companyPath s @ ''/'' @ companyID @ ''/associations/'' @ hd (Associations opt))
        (if Associations opt = [] then \<lparr>Properties_res = company, Decoded = None\<rparr>
         else \<lparr>Properties_res = None, Decoded = None\<rparr>)
        (setupProperties opt defaultCompanyFields) w = (err, r, w')
      \<longrightarrow> Get s companyID company (Some opt) w =
            (case err of
               Some e \<Rightarrow> (Inr (None, Some e), w')
             | None \<Rightarrow> (Inr (Some r, None), w')))
   \<and> (\<forall>err r w'.
      client_GetMulti (client s) (companyPath s) \<lparr>Results = [], Paging = None\<rparr>
        (if Properties_opt opt = [] then setupProperties opt defaultCompanyFields else opt) w
        = (err, r, w')
      \<longrightarrow> GetAll s company (Some opt) w =
            (case err of
               Some e \<Rightarrow> (Inr (None, Some e), w')
             | None \<Rightarrow> (Inr (Some r, None), w')))
   \<and> (\<forall>err r w'.
      client_PostSearch (client s) (companyPath s @ ''/search'') searchOption
        \<lparr>Results = [\<lparr>Properties_res = company, Decoded = None\<rparr>], Paging = None\<rparr> w
        = (err, r, w')
      \<longrightarrow> Search s company searchOption w =
            (case err of
               Some e \<Rightarrow> ((None, Some e), w')
             | None \<Rightarrow> ((Some r, None), w')))
   \<and> (\<forall>err r w'.
      client_Post (client s) (companyPath s) \<lparr>Properties_req = company\<rparr>
        \<lparr>Properties_res = company, Decoded = None\<rparr> w = (err, r, w')
      \<longrightarrow> Create s company w =
            (case err of
               Some e \<Rightarrow> ((None, Some e), w')
             | None \<Rightarrow> ((Some r, None), w')))
   \<and> (\<forall>err r w'.
      client_Patch (client s) (companyPath s @ ''/'' @ companyID) \<lparr>Properties_req = company\<rparr>
        \<lparr>Properties_res = company, Decoded = None\<rparr> w = (err, r, w')
      \<longrightarrow> Update s companyID company w =
            (case err of
               Some e \<Rightarrow> ((None, Some e), w')
             | None \<Rightarrow> ((Some r, None), w')))
   \<and> (\<forall>err w'.
      client_Delete (client s) (companyPath s @ ''/'' @ companyID) w = (err, w')
      \<longrightarrow> Delete s companyID w = (err, w'))"
proof (intro conjI allI impI)
  fix err r w'
  assume "client_Get (client s)
        (if Associations opt = [] then companyPath s @ ''/'' @ companyID
         else companyPath s @ ''/'' @ companyID @ ''/associations/'' @ hd (Associations opt))
        (if Associations opt = [] then \<lparr>Properties_res = company, Decoded = None\<rparr>
         else \<lparr>Properties_res = None, Decoded = None\<rparr>)
        (setupProperties opt defaultCompanyFields) w = (err, r, w')"
  then show "Get s companyID company (Some opt) w =
            (case err of
               Some e \<Rightarrow> (Inr (None, Some e), w')
             | None \<Rightarrow> (Inr (Some r, None), w'))"
    by (cases "Associations opt") (simp_all add: Get_def hd_conv_nth split: option.splits)
next
  fix err r w'
  assume "client_GetMulti (client s) (companyPath s) \<lparr>Results = [], Paging = None\<rparr>
        (if Properties_opt opt = [] then setupProperties opt defaultCompanyFields else opt) w
        = (err, r, w')"
  then show "GetAll s company (Some opt) w =
            (case err of
               Some e \<Rightarrow> (Inr (None, Some e), w')
             | None \<Rightarrow> (Inr (Some r, None), w'))"
    by (cases "Properties_opt opt") (simp_all add: GetAll_def split: option.splits)
next
  fix err r w'
  assume "client_PostSearch (client s) (companyPath s @ ''/search'') searchOption
        \<lparr>Results = [\<lparr>Properties_res = company, Decoded = None\<rparr>], Paging = None\<rparr> w
        = (err, r, w')"
  then show "Search s company searchOption w =
            (case err of
               Some e \<Rightarrow> ((None, Some e), w')
             | None \<Rightarrow> ((Some r, None), w'))"
    by (simp add: Search_def split: option.splits)
next
  fix err r w'
  assume "client_Post (client s) (companyPath s) \<lparr>Properties_req = company\<rparr>
        \<lparr>Properties_res = company, Decoded = None\<rparr> w = (err, r, w')"
  then show "Create s company w =
            (case err of
               Some e \<Rightarrow> ((None, Some e), w')
             | None \<Rightarrow> ((Some r, None), w'))"
    by (simp add: Create_def split: option.splits)
next
  fix err r w'
  assume "client_Patch (client s) (companyPath s @ ''/'' @ companyID) \<lparr>Properties_req = company\<rparr>
        \<lparr>Properties_res = company, Decoded = None\<rparr> w = (err, r, w')"
  then show "Update s companyID company w =
            (case err of
               Some e \<Rightarrow> ((None, Some e), w')
             | None \<Rightarrow> ((Some r, None), w'))"
    by (simp add: Update_def split: option.splits)
next
  fix err w'
  assume "client_Delete (client s) (companyPath s @ ''/'' @ companyID) w = (err, w')"
  then show "Delete s companyID w = (err, w')"
    by (simp add: Delete_def split: option.splits)
qed

theorem transport_outcome_returned_unmodified_witness:
  "(let failing = \<lparr>companyPath = companyBasePath, client = recorder (Some ''timeout'')\<rparr>;
        opt = \<lparr>Properties_opt = [], Associations = [], Others = ()\<rparr>;
        log = ([] :: (string, unit, unit, unit, string) request list)
    in fst (Get failing ''42'' (Some ''Acme'') (Some opt) log) = Inr (None, Some ''timeout'')
       \<and> fst (GetAll failing (Some ''Acme'') (Some opt) log) = Inr (None, Some ''timeout'')
       \<and> fst (Search failing (Some ''Acme'') ''filter'' log) = (None, Some ''timeout'')
       \<and> fst (Create failing (Some ''Acme'') log) = (None, Some ''timeout'')
       \<and> fst (Update failing ''42'' (Some ''Acme'') log) = (None, Some ''timeout'')
       \<and> Delete failing ''42'' log = (Some ''timeout'', [DELETE ''companies/42'']))
   \<and> (let working = \<lparr>companyPath = companyBasePath, client = recorder (None :: string option)\<rparr>;
        opt = \<lparr>Properties_opt = [], Associations = [], Others = ()\<rparr>;
        log = ([] :: (string, unit, unit, unit, string) request list)
    in fst (Get working ''42'' (Some ''Acme'') (Some opt) log)
         = Inr (Some \<lparr>Properties_res = Some ''Acme'', Decoded = None\<rparr>, None)
       \<and> fst (GetAll working (Some ''Acme'') (Some opt) log)
         = Inr (Some \<lparr>Results = [], Paging = None\<rparr>, None)
       \<and> fst (Search working (Some ''Acme'') ''filter'' log)
         = (Some \<lparr>Results = [\<lparr>Properties_res = Some ''Acme'', Decoded = None\<rparr>], Paging = None\<rparr>,
            None)
       \<and> fst (Create working (Some ''Acme'') log)
         = (Some \<lparr>Properties_res = Some ''Acme'', Decoded = None\<rparr>, None)
       \<and> fst (Update working ''42'' (Some ''Acme'') log)
         = (Some \<lparr>Properties_res = Some ''Acme'', Decoded = None\<rparr>, None)
       \<and> Delete working ''42'' log = (None, [DELETE ''companies/42'']))"
  using transport_outcome_returned_unmodified
          [where s = "\<lparr>companyPath = companyBasePath, client = recorder (Some ''timeout'')\<rparr>"
             and opt = "\<lparr>Properties_opt = [], Associations = [], Others = ()\<rparr>"
             and companyID = "''42''" and company = "Some ''Acme''" and searchOption = "''filter''"
             and w = "[] :: (string, unit, unit, unit, string) request list"]
        transport_outcome_returned_unmodified
          [where s = "\<lparr>companyPath = companyBasePath, client = recorder (None :: string option)\<rparr>"
             and opt = "\<lparr>Properties_opt = [], Associations = [], Others = ()\<rparr>"
             and companyID = "''42''" and company = "Some ''Acme''" and searchOption = "''filter''"
             and w = "[] :: (string, unit, unit, unit, string) request list"]
  by (simp add: recorder_def companyBasePath_def)

text \<open>
  C9. \<^verbatim>\<open>Get\<close> reads \<^verbatim>\<open>option.Associations\<close> and \<^verbatim>\<open>GetAll\<close> reads
  \<^verbatim>\<open>option.Properties\<close> before anything else looks at the option pointer: with a nil
  option both panic on the nil pointer, before any transport call (the world is
  untouched); with an option that is not nil neither panics, whatever the transport
  answers, the index into the association list being guarded by its length.
\<close>

theorem Get_GetAll_need_option:
  "Get s companyID company None w = (Inl NilPointerDereference, w)
   \<and> GetAll s company None w = (Inl NilPointerDereference, w)
   \<and> (\<exists>res. fst (Get s companyID company (Some opt) w) = Inr res)
   \<and> (\<exists>res. fst (GetAll s company (Some opt) w) = Inr res)"
proof (intro conjI)
  show "Get s companyID company None w = (Inl NilPointerDereference, w)"
    by (simp add: Get_def)
  show "GetAll s company None w = (Inl NilPointerDereference, w)"
    by (simp add: GetAll_def)
  show "\<exists>res. fst (Get s companyID company (Some opt) w) = Inr res"
    by (cases "Associations opt")
       (auto simp add: Get_def Let_def split: prod.splits option.splits)
  show "\<exists>res. fst (GetAll s company (Some opt) w) = Inr res"
    by (cases "Properties_opt opt")
       (auto simp add: GetAll_def Let_def split: prod.splits option.splits)
qed

text \<open>
  C10. \<^verbatim>\<open>GetAll\<close> never reads its first argument: for any two targets, the same
  option, transport and world give the same result and the same world afterwards. The
  call it makes is a GET of the service's path with an empty multi-result envelope as
  target, in which the first argument does not occur.
\<close>

theorem GetAll_ignores_company:
  "GetAll s t1 option w = GetAll s t2 option w
   \<and> GetAll s t1 (Some opt) w =
       (case client_GetMulti (client s) (companyPath s) \<lparr>Results = [], Paging = None\<rparr>
               (if Properties_opt opt = [] then setupProperties opt defaultCompanyFields else opt)
               w of
          (err, resource, w') \<Rightarrow>
            (Inr (case err of Some e \<Rightarrow> (None, Some e) | None \<Rightarrow> (Some resource, None)), w'))"
proof (intro conjI)
  show "GetAll s t1 option w = GetAll s t2 option w"
    by (simp add: GetAll_def)
  show "GetAll s t1 (Some opt) w =
       (case client_GetMulti (client s) (companyPath s) \<lparr>Results = [], Paging = None\<rparr>
               (if Properties_opt opt = [] then setupProperties opt defaultCompanyFields else opt)
               w of
          (err, resource, w') \<Rightarrow>
            (Inr (case err of Some e \<Rightarrow> (None, Some e) | None \<Rightarrow> (Some resource, None)), w'))"
    by (cases "Properties_opt opt")
       (simp_all add: GetAll_def split: prod.splits option.splits)
qed

end
